theory Spec2Isabelle
  imports Complex_Main
begin

section \<open>Bank account management system: the account classes and their persistence\<close>

text \<open>
  The development embeds \<^verbatim>\<open>bank_system.py\<close>. Amounts, balances and interest rates are
  Python numbers; they are modelled as exact reals, so the arithmetic of the model is the
  arithmetic of the source up to the rounding of binary floating point, and the special
  values \<^verbatim>\<open>nan\<close> and \<^verbatim>\<open>inf\<close> are outside the model. Account numbers and holder names are
  strings.
\<close>

subsection \<open>Exceptions, console output, outcomes\<close>

text \<open>
  The exceptions the source can raise on the modelled inputs: \<^verbatim>\<open>ValueError(msg)\<close> from
  the two validations, and \<^verbatim>\<open>KeyError(key)\<close> from a subscript \<^verbatim>\<open>data[key]\<close> on a missing key.
\<close>

datatype exn = ValueError string | KeyError string

text \<open>
  One constructor for each \<^verbatim>\<open>print\<close> call of the classes and of \<^verbatim>\<open>create_account\<close>.
  Lines that format a number keep the number instead of its decimal rendering.
\<close>

datatype line =
    Deposited real
  | Withdrawn real
  | Error string
  | AccountSaved
  | SavingsSaved
  | AccountNotFound
  | AnnualInterest real real
  | CreateNewAccount
  | AccountTypeMenu
  | AccountCreated string
  | InvalidNumericAmount

text \<open>
  What a call leaves behind: the state it ran on (the receiver object, or the files), the
  lines it printed, and how control came back to the caller: an exception that left the
  call uncaught, or the returned value (\<open>()\<close> for Python's \<^verbatim>\<open>None\<close> of a method without
  \<^verbatim>\<open>return\<close>).
\<close>

record ('s, 'r) outcome =
  state :: 's
  printed :: "line list"
  result :: "exn + 'r"

subsection \<open>Class \<^verbatim>\<open>BankAccount\<close>\<close>

record BankAccount =
  account_number :: string
  name :: string
  balance :: real

definition BankAccount_init :: "string \<Rightarrow> string \<Rightarrow> real \<Rightarrow> BankAccount" where
  "BankAccount_init an nm b = \<lparr>account_number = an, name = nm, balance = b\<rparr>"

text \<open>
  The body of the \<^verbatim>\<open>try\<close> block of \<^verbatim>\<open>deposit\<close>, statement by statement; the methods are
  inherited by the subclass, so they are defined on every extension of the record.
\<close>

definition deposit_try ::
  "'a BankAccount_scheme \<Rightarrow> real \<Rightarrow> ('a BankAccount_scheme, unit) outcome" where
  "deposit_try self amount =
     (if amount \<le> 0 then
        \<lparr>state = self, printed = [],
         result = Inl (ValueError ''Deposit amount must be positive.'')\<rparr>
      else
        \<lparr>state = self\<lparr>balance := balance self + amount\<rparr>,
         printed = [Deposited amount], result = Inr ()\<rparr>)"

text \<open>The handler \<^verbatim>\<open>except ValueError as e: print("Error:", e)\<close>; other exceptions pass.\<close>

definition except_ValueError :: "('s, unit) outcome \<Rightarrow> ('s, unit) outcome" where
  "except_ValueError r =
     (case result r of
        Inl (ValueError e) \<Rightarrow> r\<lparr>printed := printed r @ [Error e], result := Inr ()\<rparr>
      | Inl (KeyError k) \<Rightarrow> r
      | Inr u \<Rightarrow> r)"

definition deposit ::
  "'a BankAccount_scheme \<Rightarrow> real \<Rightarrow> ('a BankAccount_scheme, unit) outcome" where
  "deposit self amount = except_ValueError (deposit_try self amount)"

definition withdraw_try ::
  "'a BankAccount_scheme \<Rightarrow> real \<Rightarrow> ('a BankAccount_scheme, unit) outcome" where
  "withdraw_try self amount =
     (if amount \<le> 0 then
        \<lparr>state = self, printed = [],
         result = Inl (ValueError ''Withdrawal amount must be positive.'')\<rparr>
      else if amount > balance self then
        \<lparr>state = self, printed = [],
         result = Inl (ValueError ''Insufficient balance!'')\<rparr>
      else
        \<lparr>state = self\<lparr>balance := balance self - amount\<rparr>,
         printed = [Withdrawn amount], result = Inr ()\<rparr>)"

definition withdraw ::
  "'a BankAccount_scheme \<Rightarrow> real \<Rightarrow> ('a BankAccount_scheme, unit) outcome" where
  "withdraw self amount = except_ValueError (withdraw_try self amount)"

definition get_balance :: "'a BankAccount_scheme \<Rightarrow> real" where
  "get_balance self = balance self"

subsection \<open>Class \<^verbatim>\<open>SavingsAccount\<close>\<close>

record SavingsAccount = BankAccount +
  interest_rate :: real

definition SavingsAccount_init :: "string \<Rightarrow> string \<Rightarrow> real \<Rightarrow> real \<Rightarrow> SavingsAccount" where
  "SavingsAccount_init an nm b ir =
     BankAccount.extend (BankAccount_init an nm b) (SavingsAccount.fields ir)"

definition calculate_interest :: "SavingsAccount \<Rightarrow> (SavingsAccount, real) outcome" where
  "calculate_interest self =
     (let interest = get_balance self * interest_rate self
      in \<lparr>state = self, printed = [AnnualInterest (interest_rate self) interest],
          result = Inr interest\<rparr>)"

text \<open>An object at run time is an instance of one of the two classes.\<close>

datatype account = Plain BankAccount | Savings SavingsAccount

subsection \<open>Files\<close>

text \<open>
  A JSON value as far as the program looks at one: the value under \<^verbatim>\<open>"type"\<close> is compared
  with a string and may be anything.
\<close>

datatype json = JString string | JNumber real | JNull

text \<open>
  The dictionary that \<^verbatim>\<open>json.load\<close> returns, with the five keys the program reads; a key
  that is absent is \<open>None\<close>. The values under the other four keys have the types that
  \<^verbatim>\<open>save_to_file\<close> writes.
\<close>

record data =
  type_key :: "json option"
  account_number_key :: "string option"
  name_key :: "string option"
  balance_key :: "real option"
  interest_rate_key :: "real option"

text \<open>The working directory: file name to the JSON object the file holds.\<close>

type_synonym files = "string \<rightharpoonup> data"

definition filename_of :: "string \<Rightarrow> string" where
  "filename_of an = an @ ''.json''"

definition BankAccount_save_to_file :: "BankAccount \<Rightarrow> files \<Rightarrow> (files, unit) outcome" where
  "BankAccount_save_to_file self fs =
     (let d = \<lparr>type_key = Some (JString ''BankAccount''),
               account_number_key = Some (account_number self),
               name_key = Some (name self),
               balance_key = Some (balance self),
               interest_rate_key = None\<rparr>
      in \<lparr>state = fs(filename_of (account_number self) \<mapsto> d),
          printed = [AccountSaved], result = Inr ()\<rparr>)"

definition SavingsAccount_save_to_file :: "SavingsAccount \<Rightarrow> files \<Rightarrow> (files, unit) outcome" where
  "SavingsAccount_save_to_file self fs =
     (let d = \<lparr>type_key = Some (JString ''SavingsAccount''),
               account_number_key = Some (account_number self),
               name_key = Some (name self),
               balance_key = Some (get_balance self),
               interest_rate_key = Some (interest_rate self)\<rparr>
      in \<lparr>state = fs(filename_of (account_number self) \<mapsto> d),
          printed = [SavingsSaved], result = Inr ()\<rparr>)"

text \<open>The call \<^verbatim>\<open>account.save_to_file()\<close> dispatches on the class of the object.\<close>

fun save_to_file :: "account \<Rightarrow> files \<Rightarrow> (files, unit) outcome" where
  "save_to_file (Plain self) fs = BankAccount_save_to_file self fs"
| "save_to_file (Savings self) fs = SavingsAccount_save_to_file self fs"

text \<open>The subscript \<^verbatim>\<open>data[key]\<close>.\<close>

definition getitem :: "'v option \<Rightarrow> string \<Rightarrow> exn + 'v" where
  "getitem v key = (case v of None \<Rightarrow> Inl (KeyError key) | Some x \<Rightarrow> Inr x)"

text \<open>\<^verbatim>\<open>data.get(key, default)\<close>.\<close>

definition get_default :: "'v option \<Rightarrow> 'v \<Rightarrow> 'v" where
  "get_default v dflt = (case v of None \<Rightarrow> dflt | Some x \<Rightarrow> x)"

text \<open>
  The three subscripts are the first three arguments of both constructor calls and are
  evaluated from left to right; the first missing key raises.
\<close>

definition load_fields :: "data \<Rightarrow> exn + (string \<times> string \<times> real)" where
  "load_fields d =
     (case getitem (account_number_key d) ''account_number'' of
        Inl e \<Rightarrow> Inl e
      | Inr an \<Rightarrow>
          (case getitem (name_key d) ''name'' of
             Inl e \<Rightarrow> Inl e
           | Inr nm \<Rightarrow>
               (case getitem (balance_key d) ''balance'' of
                  Inl e \<Rightarrow> Inl e
                | Inr b \<Rightarrow> Inr (an, nm, b))))"

definition load_data :: "data \<Rightarrow> exn + account" where
  "load_data d =
     (if type_key d = Some (JString ''SavingsAccount'') then
        (case load_fields d of
           Inl e \<Rightarrow> Inl e
         | Inr (an, nm, b) \<Rightarrow>
             Inr (Savings (SavingsAccount_init an nm b
                    (get_default (interest_rate_key d) 0.05))))
      else
        (case load_fields d of
           Inl e \<Rightarrow> Inl e
         | Inr (an, nm, b) \<Rightarrow> Inr (Plain (BankAccount_init an nm b))))"

definition load_from_file :: "files \<Rightarrow> string \<Rightarrow> (files, account option) outcome" where
  "load_from_file fs an =
     (let filename = filename_of an in
      case fs filename of
        Some d \<Rightarrow>
          \<lparr>state = fs, printed = [],
           result = (case load_data d of Inl e \<Rightarrow> Inl e | Inr a \<Rightarrow> Inr (Some a))\<rparr>
      | None \<Rightarrow> \<lparr>state = fs, printed = [AccountNotFound], result = Inr None\<rparr>)"

subsection \<open>Objects of either class\<close>

text \<open>
  The attribute \<^verbatim>\<open>account.account_number\<close> and the call \<^verbatim>\<open>account.get_balance()\<close> on an
  object of either class.
\<close>

fun obj_account_number :: "account \<Rightarrow> string" where
  "obj_account_number (Plain self) = account_number self"
| "obj_account_number (Savings self) = account_number self"

fun obj_get_balance :: "account \<Rightarrow> real" where
  "obj_get_balance (Plain self) = get_balance self"
| "obj_get_balance (Savings self) = get_balance self"

subsection \<open>The utility function \<^verbatim>\<open>create_account\<close>\<close>

text \<open>
  The function reads four lines from the console. They are its arguments here, in the order
  they are read: the account number, the holder name, the value of
  \<^verbatim>\<open>float(input(...))\<close> for the initial deposit (\<open>None\<close> when \<^verbatim>\<open>float\<close> raises
  \<^verbatim>\<open>ValueError\<close>, which the function's handler catches), and the account type. The prompts
  that \<^verbatim>\<open>input\<close> writes are left out of the printed lines. The initial deposit goes to the
  constructor as it was read; a savings account gets the constructor's default rate 0.05.
\<close>

definition create_account ::
  "string \<Rightarrow> string \<Rightarrow> real option \<Rightarrow> string \<Rightarrow> files \<Rightarrow> (files, unit) outcome" where
  "create_account acc_num nm initial acc_type fs =
     (case initial of
        None \<Rightarrow>
          \<lparr>state = fs, printed = [CreateNewAccount, InvalidNumericAmount], result = Inr ()\<rparr>
      | Some initial_deposit \<Rightarrow>
          (let account =
                 (if acc_type = ''2''
                  then Savings (SavingsAccount_init acc_num nm initial_deposit 0.05)
                  else Plain (BankAccount_init acc_num nm initial_deposit));
               saved = save_to_file account fs
           in \<lparr>state = state saved,
               printed = [CreateNewAccount, AccountTypeMenu] @ printed saved
                           @ [AccountCreated nm],
               result = Inr ()\<rparr>))"

section \<open>Properties\<close>

subsection \<open>Auxiliary facts\<close>

lemma except_ValueError_simps:
  "except_ValueError \<lparr>state = s, printed = p, result = Inl (ValueError e)\<rparr>
     = \<lparr>state = s, printed = p @ [Error e], result = Inr ()\<rparr>"
  "except_ValueError \<lparr>state = s, printed = p, result = Inl (KeyError k)\<rparr>
     = \<lparr>state = s, printed = p, result = Inl (KeyError k)\<rparr>"
  "except_ValueError \<lparr>state = s, printed = p, result = Inr u\<rparr>
     = \<lparr>state = s, printed = p, result = Inr u\<rparr>"
  by (simp_all add: except_ValueError_def)

lemmas call_defs = deposit_def deposit_try_def withdraw_def withdraw_try_def
  except_ValueError_simps

lemmas init_defs = BankAccount_init_def SavingsAccount_init_def BankAccount.extend_def
  SavingsAccount.fields_def

lemmas load_defs = load_from_file_def load_data_def load_fields_def getitem_def get_default_def
  filename_of_def

lemmas save_defs = BankAccount_save_to_file_def SavingsAccount_save_to_file_def get_balance_def

subsection \<open>Withdrawals and deposits\<close>

text \<open>
  C1. \<^verbatim>\<open>withdraw\<close> checks the amount first: an amount \<open>\<le> 0\<close> raises the
  \<^verbatim>\<open>ValueError\<close> "Withdrawal amount must be positive." whatever the balance is, and the
  handler prints it. A positive amount above the balance raises "Insufficient balance!".
  Any other amount is subtracted from the balance, exactly, and nothing else changes.
\<close>

theorem withdraw_checks:
  "(amount \<le> 0 \<longrightarrow>
      result (withdraw_try self amount) = Inl (ValueError ''Withdrawal amount must be positive.'')
    \<and> withdraw self amount =
        \<lparr>state = self, printed = [Error ''Withdrawal amount must be positive.''], result = Inr ()\<rparr>)
 \<and> (0 < amount \<and> amount > balance self \<longrightarrow>
      result (withdraw_try self amount) = Inl (ValueError ''Insufficient balance!'')
    \<and> withdraw self amount =
        \<lparr>state = self, printed = [Error ''Insufficient balance!''], result = Inr ()\<rparr>)
 \<and> (0 < amount \<and> amount \<le> balance self \<longrightarrow>
      withdraw self amount =
        \<lparr>state = self\<lparr>balance := balance self - amount\<rparr>, printed = [Withdrawn amount],
         result = Inr ()\<rparr>)"
  by (simp add: call_defs)

text \<open>
  The three cases at concrete accounts. In the first the amount is both non-positive and
  above the (negative) balance, and the amount check is the one that fires.
\<close>

theorem withdraw_checks_witness:
  "(- 5 :: real) \<le> 0 \<and> - 5 > balance (BankAccount_init ''A1'' ''Asha'' (- 10))
   \<and> withdraw (BankAccount_init ''A1'' ''Asha'' (- 10)) (- 5) =
       \<lparr>state = BankAccount_init ''A1'' ''Asha'' (- 10),
        printed = [Error ''Withdrawal amount must be positive.''], result = Inr ()\<rparr>
   \<and> (0 :: real) < 150 \<and> 150 > balance (BankAccount_init ''A1'' ''Asha'' 100)
   \<and> withdraw (BankAccount_init ''A1'' ''Asha'' 100) 150 =
       \<lparr>state = BankAccount_init ''A1'' ''Asha'' 100,
        printed = [Error ''Insufficient balance!''], result = Inr ()\<rparr>
   \<and> (0 :: real) < 30 \<and> 30 \<le> balance (BankAccount_init ''A1'' ''Asha'' 100)
   \<and> withdraw (BankAccount_init ''A1'' ''Asha'' 100) 30 =
       \<lparr>state = BankAccount_init ''A1'' ''Asha'' 70,
        printed = [Withdrawn 30], result = Inr ()\<rparr>"
  using withdraw_checks [where amount = "- 5" and self = "BankAccount_init ''A1'' ''Asha'' (- 10)"]
    withdraw_checks [where amount = 150 and self = "BankAccount_init ''A1'' ''Asha'' 100"]
    withdraw_checks [where amount = 30 and self = "BankAccount_init ''A1'' ''Asha'' 100"]
  by (simp add: BankAccount_init_def)

text \<open>
  C2. \<^verbatim>\<open>deposit\<close> raises the \<^verbatim>\<open>ValueError\<close> "Deposit amount must be positive." for an
  amount \<open>\<le> 0\<close>; every positive amount is added to the balance, exactly, and no exception
  is raised for it.
\<close>

theorem deposit_checks:
  "(amount \<le> 0 \<longrightarrow>
      result (deposit_try self amount) = Inl (ValueError ''Deposit amount must be positive.'')
    \<and> deposit self amount =
        \<lparr>state = self, printed = [Error ''Deposit amount must be positive.''], result = Inr ()\<rparr>)
 \<and> (0 < amount \<longrightarrow>
      result (deposit_try self amount) = Inr ()
    \<and> deposit self amount =
        \<lparr>state = self\<lparr>balance := balance self + amount\<rparr>, printed = [Deposited amount],
         result = Inr ()\<rparr>)"
  by (simp add: call_defs)

text \<open>A rejected deposit of zero and an accepted deposit of 25 on a balance of 100.\<close>

theorem deposit_checks_witness:
  "(0 :: real) \<le> 0
   \<and> deposit (BankAccount_init ''A1'' ''Asha'' 100) 0 =
       \<lparr>state = BankAccount_init ''A1'' ''Asha'' 100,
        printed = [Error ''Deposit amount must be positive.''], result = Inr ()\<rparr>
   \<and> (0 :: real) < 25
   \<and> deposit (BankAccount_init ''A1'' ''Asha'' 100) 25 =
       \<lparr>state = BankAccount_init ''A1'' ''Asha'' 125,
        printed = [Deposited 25], result = Inr ()\<rparr>"
  using deposit_checks [where amount = 0 and self = "BankAccount_init ''A1'' ''Asha'' 100"]
    deposit_checks [where amount = 25 and self = "BankAccount_init ''A1'' ''Asha'' 100"]
  by (simp add: BankAccount_init_def)

text \<open>
  C3. The \<^verbatim>\<open>try\<close> block of \<^verbatim>\<open>deposit\<close> raises exactly when the amount is \<open>\<le> 0\<close>, that of
  \<^verbatim>\<open>withdraw\<close> exactly when the amount is \<open>\<le> 0\<close> or above the balance; in each of these
  cases the object after the call is the object before it, in every field, for an account
  of either class.
\<close>

theorem failed_call_keeps_account:
  "(result (deposit_try self amount) \<noteq> Inr () \<longleftrightarrow> amount \<le> 0)
 \<and> (result (withdraw_try self amount) \<noteq> Inr () \<longleftrightarrow> amount \<le> 0 \<or> amount > balance self)
 \<and> (amount \<le> 0 \<longrightarrow> state (deposit self amount) = self)
 \<and> (amount \<le> 0 \<or> amount > balance self \<longrightarrow> state (withdraw self amount) = self)"
  by (auto simp add: call_defs)

text \<open>A savings account with balance 200: a negative amount, and a withdrawal of 1000.\<close>

theorem failed_call_keeps_account_witness:
  "(- 1 :: real) \<le> 0
   \<and> state (deposit (SavingsAccount_init ''S1'' ''Ravi'' 200 0.05) (- 1))
       = SavingsAccount_init ''S1'' ''Ravi'' 200 0.05
   \<and> state (withdraw (SavingsAccount_init ''S1'' ''Ravi'' 200 0.05) (- 1))
       = SavingsAccount_init ''S1'' ''Ravi'' 200 0.05
   \<and> 1000 > balance (SavingsAccount_init ''S1'' ''Ravi'' 200 0.05)
   \<and> state (withdraw (SavingsAccount_init ''S1'' ''Ravi'' 200 0.05) 1000)
       = SavingsAccount_init ''S1'' ''Ravi'' 200 0.05"
  using failed_call_keeps_account
      [where amount = "- 1" and self = "SavingsAccount_init ''S1'' ''Ravi'' 200 0.05"]
    failed_call_keeps_account
      [where amount = 1000 and self = "SavingsAccount_init ''S1'' ''Ravi'' 200 0.05"]
  by (simp add: init_defs)

subsection \<open>The balance invariant\<close>

text \<open>
  C4. The balance is meant to stay \<open>\<ge> 0\<close>: \<^verbatim>\<open>deposit\<close> refuses every amount \<open>\<le> 0\<close>
  and \<^verbatim>\<open>withdraw\<close> refuses an overdraft. \<^verbatim>\<open>create_account\<close> misses the check: it hands
  the "Initial Deposit Amount" to the constructor as it was read. With the input \<open>- 100\<close>
  on an empty directory it reports success and writes a record whose balance is \<open>- 100\<close>;
  loading that record gives an account with a negative balance. The same amount is rejected
  by \<^verbatim>\<open>deposit\<close> on an account with balance 0, which stays at 0.
\<close>

theorem create_account_negative_balance:
  "create_account ''A1'' ''Asha'' (Some (- 100)) ''1'' Map.empty =
     \<lparr>state = [''A1.json'' \<mapsto> \<lparr>type_key = Some (JString ''BankAccount''),
                 account_number_key = Some ''A1'', name_key = Some ''Asha'',
                 balance_key = Some (- 100), interest_rate_key = None\<rparr>],
      printed = [CreateNewAccount, AccountTypeMenu, AccountSaved, AccountCreated ''Asha''],
      result = Inr ()\<rparr>
   \<and> result (load_from_file
        (state (create_account ''A1'' ''Asha'' (Some (- 100)) ''1'' Map.empty)) ''A1'')
       = Inr (Some (Plain \<lparr>account_number = ''A1'', name = ''Asha'', balance = - 100\<rparr>))
   \<and> obj_get_balance (Plain \<lparr>account_number = ''A1'', name = ''Asha'', balance = - 100\<rparr>) < 0
   \<and> deposit (BankAccount_init ''A1'' ''Asha'' 0) (- 100) =
       \<lparr>state = BankAccount_init ''A1'' ''Asha'' 0,
        printed = [Error ''Deposit amount must be positive.''], result = Inr ()\<rparr>"
  by (simp add: create_account_def save_defs load_defs init_defs call_defs)

subsection \<open>Saving and loading\<close>

text \<open>
  C5. Saving an account of either class and then loading by its account number returns
  that very account: the same class, account number, holder name and balance, and for a
  savings account the same interest rate. The load prints nothing and leaves the files as
  the save wrote them.
\<close>

theorem save_load_roundtrip:
  "load_from_file (state (save_to_file a fs)) (obj_account_number a)
     = \<lparr>state = state (save_to_file a fs), printed = [], result = Inr (Some a)\<rparr>"
  by (cases a) (simp_all add: load_defs save_defs init_defs)

text \<open>The savings account "S1" with balance 200 and rate 0.05, saved into an empty directory.\<close>

theorem save_load_roundtrip_witness:
  "result (load_from_file
      (state (save_to_file (Savings (SavingsAccount_init ''S1'' ''Ravi'' 200 0.05)) Map.empty))
      ''S1'')
     = Inr (Some (Savings
         \<lparr>account_number = ''S1'', name = ''Ravi'', balance = 200, interest_rate = 0.05\<rparr>))"
  using save_load_roundtrip
    [where a = "Savings (SavingsAccount_init ''S1'' ''Ravi'' 200 0.05)" and fs = Map.empty]
  by (simp add: init_defs)

text \<open>
  C6. When the value under \<^verbatim>\<open>"type"\<close> is absent or is anything but the string
  "SavingsAccount", the outcome of the load is decided by the three subscripts alone: a
  missing key raises, and otherwise the result is a \<^verbatim>\<open>BankAccount\<close> built from the stored
  account number, name and balance. With the three keys present the load returns that
  account, whatever the discriminator is.
\<close>

theorem load_other_type_is_plain:
  "fs (filename_of an) = Some d \<and> type_key d \<noteq> Some (JString ''SavingsAccount'') \<longrightarrow>
     result (load_from_file fs an) =
       (case load_fields d of
          Inl e \<Rightarrow> Inl e
        | Inr (i, n, b) \<Rightarrow> Inr (Some (Plain \<lparr>account_number = i, name = n, balance = b\<rparr>)))
   \<and> (account_number_key d = Some i \<and> name_key d = Some n \<and> balance_key d = Some b \<longrightarrow>
        load_from_file fs an =
          \<lparr>state = fs, printed = [],
           result = Inr (Some (Plain \<lparr>account_number = i, name = n, balance = b\<rparr>))\<rparr>)"
  by (simp add: load_defs init_defs split: sum.splits)

text \<open>
  A record without a discriminator (and with a stray interest rate), and a record whose
  discriminator is the number 3.
\<close>

theorem load_other_type_is_plain_witness:
  "[''A7.json'' \<mapsto> \<lparr>type_key = None, account_number_key = Some ''A7'',
        name_key = Some ''Meera'', balance_key = Some 10, interest_rate_key = Some 0.2\<rparr>]
     (filename_of ''A7'') =
     Some \<lparr>type_key = None, account_number_key = Some ''A7'',
        name_key = Some ''Meera'', balance_key = Some 10, interest_rate_key = Some 0.2\<rparr>
   \<and> load_from_file
       [''A7.json'' \<mapsto> \<lparr>type_key = None, account_number_key = Some ''A7'',
          name_key = Some ''Meera'', balance_key = Some 10, interest_rate_key = Some 0.2\<rparr>] ''A7''
     = \<lparr>state = [''A7.json'' \<mapsto> \<lparr>type_key = None, account_number_key = Some ''A7'',
          name_key = Some ''Meera'', balance_key = Some 10, interest_rate_key = Some 0.2\<rparr>],
        printed = [],
        result = Inr (Some (Plain \<lparr>account_number = ''A7'', name = ''Meera'', balance = 10\<rparr>))\<rparr>
   \<and> [''B2.json'' \<mapsto> \<lparr>type_key = Some (JNumber 3), account_number_key = Some ''X9'',
        name_key = Some ''Kiran'', balance_key = Some 1, interest_rate_key = None\<rparr>]
     (filename_of ''B2'') =
     Some \<lparr>type_key = Some (JNumber 3), account_number_key = Some ''X9'',
        name_key = Some ''Kiran'', balance_key = Some 1, interest_rate_key = None\<rparr>
   \<and> result (load_from_file
       [''B2.json'' \<mapsto> \<lparr>type_key = Some (JNumber 3), account_number_key = Some ''X9'',
          name_key = Some ''Kiran'', balance_key = Some 1, interest_rate_key = None\<rparr>] ''B2'')
     = Inr (Some (Plain \<lparr>account_number = ''X9'', name = ''Kiran'', balance = 1\<rparr>))"
  using load_other_type_is_plain
    [where an = "''A7''" and i = "''A7''" and n = "''Meera''" and b = 10
       and d = "\<lparr>type_key = None, account_number_key = Some ''A7'',
          name_key = Some ''Meera'', balance_key = Some 10, interest_rate_key = Some 0.2\<rparr>"
       and fs = "[''A7.json'' \<mapsto> \<lparr>type_key = None, account_number_key = Some ''A7'',
          name_key = Some ''Meera'', balance_key = Some 10, interest_rate_key = Some 0.2\<rparr>]"]
    load_other_type_is_plain
    [where an = "''B2''" and i = "''X9''" and n = "''Kiran''" and b = 1
       and d = "\<lparr>type_key = Some (JNumber 3), account_number_key = Some ''X9'',
          name_key = Some ''Kiran'', balance_key = Some 1, interest_rate_key = None\<rparr>"
       and fs = "[''B2.json'' \<mapsto> \<lparr>type_key = Some (JNumber 3), account_number_key = Some ''X9'',
          name_key = Some ''Kiran'', balance_key = Some 1, interest_rate_key = None\<rparr>]"]
  by (simp add: filename_of_def)

text \<open>
  C7. A record whose discriminator is "SavingsAccount" loads as a \<^verbatim>\<open>SavingsAccount\<close>; its
  interest rate is 0.05 when the record has no \<^verbatim>\<open>interest_rate\<close> key, and the stored rate
  when it has one.
\<close>

theorem load_savings_rate:
  "fs (filename_of an) = Some d \<and> type_key d = Some (JString ''SavingsAccount'')
   \<and> account_number_key d = Some i \<and> name_key d = Some n \<and> balance_key d = Some b \<longrightarrow>
     (interest_rate_key d = None \<longrightarrow>
        load_from_file fs an =
          \<lparr>state = fs, printed = [],
           result = Inr (Some (Savings
             \<lparr>account_number = i, name = n, balance = b, interest_rate = 0.05\<rparr>))\<rparr>)
   \<and> (interest_rate_key d = Some r \<longrightarrow>
        load_from_file fs an =
          \<lparr>state = fs, printed = [],
           result = Inr (Some (Savings
             \<lparr>account_number = i, name = n, balance = b, interest_rate = r\<rparr>))\<rparr>)"
  by (simp add: load_defs init_defs)

text \<open>A savings record without a rate, and one that stores the rate 0.07.\<close>

theorem load_savings_rate_witness:
  "result (load_from_file
       [''S1.json'' \<mapsto> \<lparr>type_key = Some (JString ''SavingsAccount''),
          account_number_key = Some ''S1'', name_key = Some ''Ravi'', balance_key = Some 200,
          interest_rate_key = None\<rparr>] ''S1'')
     = Inr (Some (Savings
         \<lparr>account_number = ''S1'', name = ''Ravi'', balance = 200, interest_rate = 0.05\<rparr>))
   \<and> result (load_from_file
       [''S2.json'' \<mapsto> \<lparr>type_key = Some (JString ''SavingsAccount''),
          account_number_key = Some ''S2'', name_key = Some ''Ravi'', balance_key = Some 200,
          interest_rate_key = Some 0.07\<rparr>] ''S2'')
     = Inr (Some (Savings
         \<lparr>account_number = ''S2'', name = ''Ravi'', balance = 200, interest_rate = 0.07\<rparr>))"
  using load_savings_rate
    [where an = "''S1''" and i = "''S1''" and n = "''Ravi''" and b = 200
       and d = "\<lparr>type_key = Some (JString ''SavingsAccount''),
          account_number_key = Some ''S1'', name_key = Some ''Ravi'', balance_key = Some 200,
          interest_rate_key = None\<rparr>"
       and fs = "[''S1.json'' \<mapsto> \<lparr>type_key = Some (JString ''SavingsAccount''),
          account_number_key = Some ''S1'', name_key = Some ''Ravi'', balance_key = Some 200,
          interest_rate_key = None\<rparr>]"]
    load_savings_rate
    [where an = "''S2''" and i = "''S2''" and n = "''Ravi''" and b = 200 and r = "0.07"
       and d = "\<lparr>type_key = Some (JString ''SavingsAccount''),
          account_number_key = Some ''S2'', name_key = Some ''Ravi'', balance_key = Some 200,
          interest_rate_key = Some 0.07\<rparr>"
       and fs = "[''S2.json'' \<mapsto> \<lparr>type_key = Some (JString ''SavingsAccount''),
          account_number_key = Some ''S2'', name_key = Some ''Ravi'', balance_key = Some 200,
          interest_rate_key = Some 0.07\<rparr>]"]
  by (simp add: filename_of_def)

text \<open>
  C10. \<^verbatim>\<open>load_from_file\<close> returns \<^verbatim>\<open>None\<close> exactly when there is no file for the account
  number. When the file is there, the first of the keys \<^verbatim>\<open>account_number\<close>, \<^verbatim>\<open>name\<close>,
  \<^verbatim>\<open>balance\<close> that the record lacks raises a \<^verbatim>\<open>KeyError\<close>, which no handler catches; with
  the three keys present an account is returned.
\<close>

theorem load_not_found_or_key_error:
  "(result (load_from_file fs an) = Inr None \<longleftrightarrow> fs (filename_of an) = None)
 \<and> (fs (filename_of an) = Some d \<longrightarrow>
      (account_number_key d = None \<longrightarrow>
         result (load_from_file fs an) = Inl (KeyError ''account_number''))
    \<and> (account_number_key d \<noteq> None \<and> name_key d = None \<longrightarrow>
         result (load_from_file fs an) = Inl (KeyError ''name''))
    \<and> (account_number_key d \<noteq> None \<and> name_key d \<noteq> None \<and> balance_key d = None \<longrightarrow>
         result (load_from_file fs an) = Inl (KeyError ''balance''))
    \<and> (account_number_key d \<noteq> None \<and> name_key d \<noteq> None \<and> balance_key d \<noteq> None \<longrightarrow>
         (\<exists>a. result (load_from_file fs an) = Inr (Some a))))"
  by (auto simp add: load_defs split: option.splits sum.splits)

text \<open>
  An empty directory, a record without the key \<^verbatim>\<open>balance\<close>, and a record without any of
  the three keys, for which the first subscript is the one that raises.
\<close>

theorem load_not_found_or_key_error_witness:
  "result (load_from_file Map.empty ''A1'') = Inr None
   \<and> [''A1.json'' \<mapsto> \<lparr>type_key = Some (JString ''SavingsAccount''),
        account_number_key = Some ''A1'', name_key = Some ''Asha'', balance_key = None,
        interest_rate_key = Some 0.05\<rparr>] (filename_of ''A1'')
     = Some \<lparr>type_key = Some (JString ''SavingsAccount''),
        account_number_key = Some ''A1'', name_key = Some ''Asha'', balance_key = None,
        interest_rate_key = Some 0.05\<rparr>
   \<and> result (load_from_file
        [''A1.json'' \<mapsto> \<lparr>type_key = Some (JString ''SavingsAccount''),
           account_number_key = Some ''A1'', name_key = Some ''Asha'', balance_key = None,
           interest_rate_key = Some 0.05\<rparr>] ''A1'')
     = Inl (KeyError ''balance'')
   \<and> result (load_from_file
        [''A2.json'' \<mapsto> \<lparr>type_key = Some (JString ''BankAccount''),
           account_number_key = None, name_key = None, balance_key = None,
           interest_rate_key = None\<rparr>] ''A2'')
     = Inl (KeyError ''account_number'')"
  using load_not_found_or_key_error [where fs = Map.empty and an = "''A1''"]
    load_not_found_or_key_error
    [where an = "''A1''"
       and d = "\<lparr>type_key = Some (JString ''SavingsAccount''),
           account_number_key = Some ''A1'', name_key = Some ''Asha'', balance_key = None,
           interest_rate_key = Some 0.05\<rparr>"
       and fs = "[''A1.json'' \<mapsto> \<lparr>type_key = Some (JString ''SavingsAccount''),
           account_number_key = Some ''A1'', name_key = Some ''Asha'', balance_key = None,
           interest_rate_key = Some 0.05\<rparr>]"]
    load_not_found_or_key_error
    [where an = "''A2''"
       and d = "\<lparr>type_key = Some (JString ''BankAccount''),
           account_number_key = None, name_key = None, balance_key = None,
           interest_rate_key = None\<rparr>"
       and fs = "[''A2.json'' \<mapsto> \<lparr>type_key = Some (JString ''BankAccount''),
           account_number_key = None, name_key = None, balance_key = None,
           interest_rate_key = None\<rparr>]"]
  by (simp add: filename_of_def)

subsection \<open>How a failure reaches the caller\<close>

text \<open>
  C8, as stated, fails. The \<^verbatim>\<open>ValueError\<close> is caught inside the method that raised it: the
  caller of a failing \<^verbatim>\<open>withdraw\<close> or \<^verbatim>\<open>deposit\<close> gets \<^verbatim>\<open>None\<close>, which is what the caller of
  a successful call gets, and the two kinds of failing withdrawal are returned alike.
\<close>

theorem error_not_returned_counterexample:
  "result (withdraw_try (BankAccount_init ''A1'' ''Asha'' 100) (- 1))
     = Inl (ValueError ''Withdrawal amount must be positive.'')
   \<and> result (withdraw_try (BankAccount_init ''A1'' ''Asha'' 100) 1000)
     = Inl (ValueError ''Insufficient balance!'')
   \<and> result (withdraw (BankAccount_init ''A1'' ''Asha'' 100) (- 1))
     \<noteq> result (withdraw_try (BankAccount_init ''A1'' ''Asha'' 100) (- 1))
   \<and> result (withdraw (BankAccount_init ''A1'' ''Asha'' 100) (- 1))
     = result (withdraw (BankAccount_init ''A1'' ''Asha'' 100) 30)
   \<and> result (withdraw (BankAccount_init ''A1'' ''Asha'' 100) 1000)
     = result (withdraw (BankAccount_init ''A1'' ''Asha'' 100) 30)
   \<and> result (deposit_try (BankAccount_init ''A1'' ''Asha'' 100) (- 1))
     = Inl (ValueError ''Deposit amount must be positive.'')
   \<and> result (deposit (BankAccount_init ''A1'' ''Asha'' 100) (- 1))
     = result (deposit (BankAccount_init ''A1'' ''Asha'' 100) 30)"
  by (simp add: call_defs BankAccount_init_def)

text \<open>
  C8, amended. No exception leaves \<^verbatim>\<open>deposit\<close> or \<^verbatim>\<open>withdraw\<close>: both return \<^verbatim>\<open>None\<close> for
  every amount. When the \<^verbatim>\<open>try\<close> block raises, the exception is one of the three
  \<^verbatim>\<open>ValueError\<close>s of the validations, and the call prints its message as an error line and
  nothing else.
\<close>

theorem error_printed_not_raised:
  "result (deposit self amount) = Inr ()
 \<and> result (withdraw self amount) = Inr ()
 \<and> (result (deposit_try self amount) = Inl e \<longrightarrow>
       e = ValueError ''Deposit amount must be positive.''
     \<and> printed (deposit self amount) = [Error ''Deposit amount must be positive.''])
 \<and> (result (withdraw_try self amount) = Inl e' \<longrightarrow>
       (amount \<le> 0 \<and> e' = ValueError ''Withdrawal amount must be positive.''
          \<and> printed (withdraw self amount) = [Error ''Withdrawal amount must be positive.''])
     \<or> (0 < amount \<and> balance self < amount \<and> e' = ValueError ''Insufficient balance!''
          \<and> printed (withdraw self amount) = [Error ''Insufficient balance!'']))"
  by (auto simp add: call_defs split: if_splits)

text \<open>A deposit of \<open>- 1\<close> and a withdrawal of 1000 on a balance of 100.\<close>

theorem error_printed_not_raised_witness:
  "result (deposit_try (BankAccount_init ''A1'' ''Asha'' 100) (- 1))
     = Inl (ValueError ''Deposit amount must be positive.'')
   \<and> printed (deposit (BankAccount_init ''A1'' ''Asha'' 100) (- 1))
     = [Error ''Deposit amount must be positive.'']
   \<and> result (withdraw_try (BankAccount_init ''A1'' ''Asha'' 100) 1000)
     = Inl (ValueError ''Insufficient balance!'')
   \<and> printed (withdraw (BankAccount_init ''A1'' ''Asha'' 100) 1000)
     = [Error ''Insufficient balance!'']
   \<and> result (withdraw (BankAccount_init ''A1'' ''Asha'' 100) 1000) = Inr ()"
  using error_printed_not_raised
    [where self = "BankAccount_init ''A1'' ''Asha'' 100" and amount = "- 1"
       and e = "ValueError ''Deposit amount must be positive.''"]
    error_printed_not_raised
    [where self = "BankAccount_init ''A1'' ''Asha'' 100" and amount = 1000
       and e' = "ValueError ''Insufficient balance!''"]
  by (simp add: call_defs BankAccount_init_def)

subsection \<open>Interest\<close>

text \<open>
  C9. \<^verbatim>\<open>calculate_interest\<close> returns the product of the balance and the interest rate and
  leaves the account as it was; its one effect is the line it prints. On a balance of 1000
  at rate 0.05 it returns 50.
\<close>

theorem calculate_interest_product:
  "calculate_interest self =
     \<lparr>state = self,
      printed = [AnnualInterest (interest_rate self) (balance self * interest_rate self)],
      result = Inr (balance self * interest_rate self)\<rparr>
   \<and> result (calculate_interest (SavingsAccount_init an nm 1000 0.05)) = Inr 50"
  by (simp add: calculate_interest_def get_balance_def init_defs Let_def)

end
